theory Spec2Isabelle
  imports Main
begin

section \<open>The TMDB query shell: data model\<close>

text \<open>
  The development follows \<^verbatim>\<open>src/tmdb_cli.py\<close>. Python strings are modelled as
  \<open>string\<close>; the model reads a line as ASCII text (a \<open>char\<close> is one byte, so the
  case mapping and the white space of code points beyond ASCII are outside the model).
  Exceptions are values: a computation that may raise returns \<open>exn + 'a\<close>, with
  \<open>Inl\<close> the exception raised.
\<close>

datatype exn =
    KeyboardInterrupt
  | EOFError
  | ValueError
  | IndexError
  | KeyError
  | RequestException

text \<open>
  \<^verbatim>\<open>except Exception\<close> catches every exception of the model but
  \<open>KeyboardInterrupt\<close>, which derives from \<^verbatim>\<open>BaseException\<close> only.
\<close>

definition is_Exception :: "exn \<Rightarrow> bool" where
  "is_Exception e = (e \<noteq> KeyboardInterrupt)"

subsection \<open>String operations of the Python runtime\<close>

text \<open>\<^verbatim>\<open>str.lower\<close> on ASCII letters.\<close>

definition lower_char :: "char \<Rightarrow> char" where
  "lower_char c =
     (let n = (of_char c :: nat) in if 65 \<le> n \<and> n \<le> 90 then char_of (n + 32) else c)"

definition lower :: "string \<Rightarrow> string" where
  "lower s = map lower_char s"

text \<open>\<^verbatim>\<open>s.replace(old, "")\<close> for a one-character \<open>old\<close>.\<close>

definition replace_char :: "char \<Rightarrow> string \<Rightarrow> string" where
  "replace_char old s = filter (\<lambda>c. c \<noteq> old) s"

text \<open>
  White space as \<^verbatim>\<open>str.split()\<close> and \<^verbatim>\<open>int()\<close> see it in ASCII: tab, line
  feed, vertical tab, form feed, carriage return, the four separators 0x1c to 0x1f, and
  the space.
\<close>

definition is_space :: "char \<Rightarrow> bool" where
  "is_space c = (let n = (of_char c :: nat) in (9 \<le> n \<and> n \<le> 13) \<or> (28 \<le> n \<and> n \<le> 32))"

text \<open>
  \<^verbatim>\<open>str.split()\<close> with no argument: the maximal runs of characters that are not
  white space, in order. \<open>split_acc w s\<close> carries the word read so far.
\<close>

fun split_acc :: "string \<Rightarrow> string \<Rightarrow> string list" where
  "split_acc w [] = (if w = [] then [] else [w])"
| "split_acc w (c # cs) =
     (if is_space c then (if w = [] then split_acc [] cs else w # split_acc [] cs)
      else split_acc (w @ [c]) cs)"

definition py_split :: "string \<Rightarrow> string list" where
  "py_split s = split_acc [] s"

text \<open>\<^verbatim>\<open>s.startswith(p)\<close>.\<close>

definition startswith :: "string \<Rightarrow> string \<Rightarrow> bool" where
  "startswith s p = (take (length p) s = p)"

text \<open>\<^verbatim>\<open>" ".join(ws)\<close>.\<close>

fun join_words :: "string list \<Rightarrow> string" where
  "join_words [] = []"
| "join_words [w] = w"
| "join_words (w # v # ws) = w @ '' '' @ join_words (v # ws)"

text \<open>
  \<^verbatim>\<open>int(s)\<close> on a string: white space around is dropped, then an optional sign and
  decimal digits, which single underscores may separate. Anything else raises
  \<open>ValueError\<close>. (The interpreter's cap on the number of digits is not modelled.)
\<close>

definition digit_val :: "char \<Rightarrow> nat option" where
  "digit_val c =
     (let n = (of_char c :: nat) in if 48 \<le> n \<and> n \<le> 57 then Some (n - 48) else None)"

fun parse_digits :: "bool \<Rightarrow> nat \<Rightarrow> string \<Rightarrow> nat option" where
  "parse_digits prev acc [] = (if prev then Some acc else None)"
| "parse_digits prev acc (c # cs) =
     (if c = CHR ''_'' then (if prev then parse_digits False acc cs else None)
      else (case digit_val c of
              None \<Rightarrow> None
            | Some d \<Rightarrow> parse_digits True (10 * acc + d) cs))"

definition strip :: "string \<Rightarrow> string" where
  "strip s = rev (dropWhile is_space (rev (dropWhile is_space s)))"

definition py_int :: "string \<Rightarrow> exn + int" where
  "py_int s =
     (case strip s of
        [] \<Rightarrow> Inl ValueError
      | c # cs \<Rightarrow>
          if c = CHR ''-'' then
            (case parse_digits False 0 cs of None \<Rightarrow> Inl ValueError | Some n \<Rightarrow> Inr (- int n))
          else if c = CHR ''+'' then
            (case parse_digits False 0 cs of None \<Rightarrow> Inl ValueError | Some n \<Rightarrow> Inr (int n))
          else
            (case parse_digits False 0 (c # cs) of None \<Rightarrow> Inl ValueError | Some n \<Rightarrow> Inr (int n)))"

text \<open>\<^verbatim>\<open>str(n)\<close> on an integer: decimal digits, a minus sign when negative.\<close>

fun str_nat :: "nat \<Rightarrow> string" where
  "str_nat n =
     (if n < 10 then [char_of (48 + n)] else str_nat (n div 10) @ [char_of (48 + n mod 10)])"

definition str_int :: "int \<Rightarrow> string" where
  "str_int i = (if i < 0 then CHR ''-'' # str_nat (nat (- i)) else str_nat (nat i))"

text \<open>
  \<^verbatim>\<open>xs[:n]\<close>: the first \<open>n\<close> items; a negative \<open>n\<close> counts from the end.
\<close>

definition slice_to :: "int \<Rightarrow> 'a list \<Rightarrow> 'a list" where
  "slice_to n xs = (if 0 \<le> n then take (nat n) xs else take (length xs - nat (- n)) xs)"

subsection \<open>The matcher\<close>

text \<open>
  Modelled from the spec: the function \<^verbatim>\<open>match\<close> of the module \<^verbatim>\<open>match\<close>, which
  \<^verbatim>\<open>tmdb_cli.py\<close> imports and which is not among the sources. A template token is a
  literal word, the single wildcard or the multi wildcard; in the pattern table the
  single wildcard is written \<^verbatim>\<open>_\<close> and the multi wildcard \<^verbatim>\<open>%\<close>. The matcher
  descends both sequences together. A literal must equal the head of the input; the
  single wildcard captures the head of the input; the multi wildcard captures a run of
  one or more input tokens, joined by spaces, trying the run lengths from the shortest
  and taking the first for which the rest of the template matches the rest of the input.
  No match is \<open>None\<close>; a match is \<open>Some\<close> of the bindings, in template order.
\<close>

datatype token = Literal string | SingleWildcard | MultiWildcard

definition token_of :: "string \<Rightarrow> token" where
  "token_of w =
     (if w = ''_'' then SingleWildcard else if w = ''%'' then MultiWildcard else Literal w)"

fun first_some :: "'a option list \<Rightarrow> 'a option" where
  "first_some [] = None"
| "first_some (None # xs) = first_some xs"
| "first_some (Some x # xs) = Some x"

fun match_tokens :: "token list \<Rightarrow> string list \<Rightarrow> string list option" where
  "match_tokens [] [] = Some []"
| "match_tokens [] (w # ws) = None"
| "match_tokens (Literal l # ts) [] = None"
| "match_tokens (Literal l # ts) (w # ws) = (if w = l then match_tokens ts ws else None)"
| "match_tokens (SingleWildcard # ts) [] = None"
| "match_tokens (SingleWildcard # ts) (w # ws) = map_option ((#) w) (match_tokens ts ws)"
| "match_tokens (MultiWildcard # ts) ws =
     first_some
       (map (\<lambda>k. map_option ((#) (join_words (take k ws))) (match_tokens ts (drop k ws)))
            [1 ..< Suc (length ws)])"

definition match :: "string list \<Rightarrow> string list \<Rightarrow> string list option" where
  "match pattern src = match_tokens (map token_of pattern) src"

subsection \<open>The API client\<close>

text \<open>
  The JSON objects of the responses, with the fields the handlers read. A field read
  with \<^verbatim>\<open>obj["k"]\<close> is optional in the model and raises \<open>KeyError\<close> when absent;
  a field read with \<^verbatim>\<open>obj.get("k", d)\<close> is optional and defaults.
\<close>

record movie =
  m_title :: "string option"
  m_id :: "int option"
  m_release_date :: "string option"
  m_job :: "string option"

record crew_member =
  c_name :: "string option"
  c_job :: "string option"

record cast_member =
  a_name :: "string option"

record credits =
  crew :: "crew_member list"
  cast :: "cast_member list"

record details =
  d_credits :: "credits option"

record person =
  p_id :: "int option"

text \<open>
  The configuration and the remote service: the API key read at startup, and for each
  request the helpers send what \<^verbatim>\<open>requests.get\<close>, \<^verbatim>\<open>raise_for_status\<close> and
  \<^verbatim>\<open>json\<close> give together (an exception, or the part of the body the helper
  reads). The helpers' diagnostic prints are not part of the model.
\<close>

record api =
  TMDB_API_KEY :: string
  get_search_movie :: "string \<Rightarrow> exn + movie list"
  get_movie :: "int \<Rightarrow> exn + details"
  get_discover_year :: "string \<Rightarrow> exn + movie list"
  get_discover_range :: "string \<Rightarrow> string \<Rightarrow> exn + movie list"
  get_search_person :: "string \<Rightarrow> exn + person list"
  get_person_credits :: "int \<Rightarrow> string \<Rightarrow> exn + movie list"

text \<open>
  \<^verbatim>\<open>try: ... except Exception: return dflt\<close> around a request: an exception that
  \<^verbatim>\<open>except Exception\<close> catches becomes the default, any other propagates.
\<close>

definition guarded :: "'a \<Rightarrow> exn + 'a \<Rightarrow> exn + 'a" where
  "guarded dflt r =
     (case r of Inl e \<Rightarrow> (if is_Exception e then Inr dflt else Inl e) | Inr v \<Rightarrow> Inr v)"

definition search_movies_by_title :: "api \<Rightarrow> string \<Rightarrow> exn + movie list" where
  "search_movies_by_title a title =
     (if TMDB_API_KEY a = [] then Inr [] else guarded [] (get_search_movie a title))"

definition get_movie_details :: "api \<Rightarrow> int \<Rightarrow> exn + details option" where
  "get_movie_details a movie_id =
     (if TMDB_API_KEY a = [] then Inr None
      else guarded None (map_sum id Some (get_movie a movie_id)))"

definition search_movies_by_year :: "api \<Rightarrow> string \<Rightarrow> exn + movie list" where
  "search_movies_by_year a year =
     (if TMDB_API_KEY a = [] then Inr [] else guarded [] (get_discover_year a year))"

definition search_movies_by_year_range :: "api \<Rightarrow> string \<Rightarrow> string \<Rightarrow> exn + movie list" where
  "search_movies_by_year_range a start_year end_year =
     (if TMDB_API_KEY a = [] then Inr []
      else guarded [] (get_discover_range a (start_year @ ''-01-01'') (end_year @ ''-12-31'')))"

definition search_person :: "api \<Rightarrow> string \<Rightarrow> exn + person list" where
  "search_person a name =
     (if TMDB_API_KEY a = [] then Inr [] else guarded [] (get_search_person a name))"

definition get_movies_by_person :: "api \<Rightarrow> int \<Rightarrow> string \<Rightarrow> exn + movie list" where
  "get_movies_by_person a person_id role =
     (if TMDB_API_KEY a = [] then Inr [] else guarded [] (get_person_credits a person_id role))"

subsection \<open>The handlers\<close>

definition No_answers :: "string list" where
  "No_answers = [''No answers'']"

definition I_dont_understand :: "string list" where
  "I_dont_understand = [''I don't understand'']"

text \<open>
  \<^verbatim>\<open>[obj["k"] for obj in xs]\<close>: the fields in order, \<open>KeyError\<close> at the first
  object without the field.
\<close>

fun fields :: "('a \<Rightarrow> string option) \<Rightarrow> 'a list \<Rightarrow> exn + string list" where
  "fields f [] = Inr []"
| "fields f (x # xs) =
     (case f x of
        None \<Rightarrow> Inl KeyError
      | Some v \<Rightarrow> (case fields f xs of Inl e \<Rightarrow> Inl e | Inr vs \<Rightarrow> Inr (v # vs)))"

text \<open>
  \<^verbatim>\<open>[crew["name"] for crew in xs if crew["job"] == "Director"]\<close>: the condition is
  read first, the name only when it holds.
\<close>

fun director_names :: "crew_member list \<Rightarrow> exn + string list" where
  "director_names [] = Inr []"
| "director_names (c # cs) =
     (case c_job c of
        None \<Rightarrow> Inl KeyError
      | Some j \<Rightarrow>
          if j = ''Director'' then
            (case c_name c of
               None \<Rightarrow> Inl KeyError
             | Some n \<Rightarrow> (case director_names cs of Inl e \<Rightarrow> Inl e | Inr ns \<Rightarrow> Inr (n # ns)))
          else director_names cs)"

text \<open>\<^verbatim>\<open>xs[0]["id"]\<close> on a list known not to be empty.\<close>

definition first_id :: "('a \<Rightarrow> int option) \<Rightarrow> 'a list \<Rightarrow> exn + int" where
  "first_id f xs =
     (case xs of
        [] \<Rightarrow> Inl IndexError
      | x # _ \<Rightarrow> (case f x of None \<Rightarrow> Inl KeyError | Some i \<Rightarrow> Inr i))"

definition title_by_year :: "api \<Rightarrow> string list \<Rightarrow> exn + string list" where
  "title_by_year a matches =
     (case matches of
        [] \<Rightarrow> Inl IndexError
      | year # _ \<Rightarrow>
          (case search_movies_by_year a year of
             Inl e \<Rightarrow> Inl e
           | Inr movies \<Rightarrow>
               if movies = [] then Inr No_answers else fields m_title (take 10 movies)))"

definition title_by_year_range :: "api \<Rightarrow> string list \<Rightarrow> exn + string list" where
  "title_by_year_range a matches =
     (case matches of
        start_year # end_year # _ \<Rightarrow>
          (case search_movies_by_year_range a start_year end_year of
             Inl e \<Rightarrow> Inl e
           | Inr movies \<Rightarrow>
               if movies = [] then Inr No_answers else fields m_title (take 10 movies))
      | _ \<Rightarrow> Inl IndexError)"

definition title_before_year :: "api \<Rightarrow> string list \<Rightarrow> exn + string list" where
  "title_before_year a matches =
     (case matches of
        [] \<Rightarrow> Inl IndexError
      | y # _ \<Rightarrow>
          (case py_int y of
             Inl e \<Rightarrow> Inl e
           | Inr year \<Rightarrow>
               (case search_movies_by_year_range a ''1900'' (str_int (year - 1)) of
                  Inl e \<Rightarrow> Inl e
                | Inr movies \<Rightarrow>
                    if movies = [] then Inr No_answers else fields m_title (take 10 movies))))"

definition title_after_year :: "api \<Rightarrow> string list \<Rightarrow> exn + string list" where
  "title_after_year a matches =
     (case matches of
        [] \<Rightarrow> Inl IndexError
      | y # _ \<Rightarrow>
          (case py_int y of
             Inl e \<Rightarrow> Inl e
           | Inr year \<Rightarrow>
               (let current_year = 2025 in
                case search_movies_by_year_range a (str_int (year + 1)) (str_int current_year) of
                  Inl e \<Rightarrow> Inl e
                | Inr movies \<Rightarrow>
                    if movies = [] then Inr No_answers else fields m_title (take 10 movies))))"

definition director_by_title :: "api \<Rightarrow> string list \<Rightarrow> exn + string list" where
  "director_by_title a matches =
     (case matches of
        [] \<Rightarrow> Inl IndexError
      | title # _ \<Rightarrow>
          (case search_movies_by_title a title of
             Inl e \<Rightarrow> Inl e
           | Inr movies \<Rightarrow>
               if movies = [] then Inr No_answers
               else
                 (case first_id m_id movies of
                    Inl e \<Rightarrow> Inl e
                  | Inr i \<Rightarrow>
                      (case get_movie_details a i of
                         Inl e \<Rightarrow> Inl e
                       | Inr None \<Rightarrow> Inr No_answers
                       | Inr (Some d) \<Rightarrow>
                           (case d_credits d of
                              None \<Rightarrow> Inr No_answers
                            | Some cr \<Rightarrow>
                                (case director_names (crew cr) of
                                   Inl e \<Rightarrow> Inl e
                                 | Inr directors \<Rightarrow>
                                     Inr (if directors \<noteq> [] then directors else No_answers)))))))"

definition title_by_director :: "api \<Rightarrow> string list \<Rightarrow> exn + string list" where
  "title_by_director a matches =
     (case matches of
        [] \<Rightarrow> Inl IndexError
      | director_name # _ \<Rightarrow>
          (case search_person a director_name of
             Inl e \<Rightarrow> Inl e
           | Inr persons \<Rightarrow>
               if persons = [] then Inr No_answers
               else
                 (case first_id p_id persons of
                    Inl e \<Rightarrow> Inl e
                  | Inr i \<Rightarrow>
                      (case get_movies_by_person a i ''crew'' of
                         Inl e \<Rightarrow> Inl e
                       | Inr movies \<Rightarrow>
                           (case fields m_title (filter (\<lambda>m. m_job m = Some ''Director'') movies) of
                              Inl e \<Rightarrow> Inl e
                            | Inr director_movies \<Rightarrow>
                                Inr (if director_movies \<noteq> [] then take 10 director_movies
                                     else No_answers))))))"

definition actors_by_title :: "api \<Rightarrow> string list \<Rightarrow> exn + string list" where
  "actors_by_title a matches =
     (case matches of
        [] \<Rightarrow> Inl IndexError
      | title # _ \<Rightarrow>
          (case search_movies_by_title a title of
             Inl e \<Rightarrow> Inl e
           | Inr movies \<Rightarrow>
               if movies = [] then Inr No_answers
               else
                 (case first_id m_id movies of
                    Inl e \<Rightarrow> Inl e
                  | Inr i \<Rightarrow>
                      (case get_movie_details a i of
                         Inl e \<Rightarrow> Inl e
                       | Inr None \<Rightarrow> Inr No_answers
                       | Inr (Some d) \<Rightarrow>
                           (case d_credits d of
                              None \<Rightarrow> Inr No_answers
                            | Some cr \<Rightarrow>
                                (case fields a_name (take 10 (cast cr)) of
                                   Inl e \<Rightarrow> Inl e
                                 | Inr actors \<Rightarrow>
                                     Inr (if actors \<noteq> [] then actors else No_answers)))))))"

definition year_by_title :: "api \<Rightarrow> string list \<Rightarrow> exn + string list" where
  "year_by_title a matches =
     (case matches of
        [] \<Rightarrow> Inl IndexError
      | title # _ \<Rightarrow>
          (case search_movies_by_title a title of
             Inl e \<Rightarrow> Inl e
           | Inr movies \<Rightarrow>
               (case movies of
                  [] \<Rightarrow> Inr No_answers
                | m # _ \<Rightarrow>
                    (let release_date = (case m_release_date m of None \<Rightarrow> [] | Some d \<Rightarrow> d) in
                     if release_date \<noteq> [] then
                       Inr [takeWhile (\<lambda>c. c \<noteq> CHR ''-'') release_date]
                     else Inr No_answers))))"

definition title_by_actor :: "api \<Rightarrow> string list \<Rightarrow> exn + string list" where
  "title_by_actor a matches =
     (case matches of
        [] \<Rightarrow> Inl IndexError
      | actor_name # _ \<Rightarrow>
          (case search_person a actor_name of
             Inl e \<Rightarrow> Inl e
           | Inr persons \<Rightarrow>
               if persons = [] then Inr No_answers
               else
                 (case first_id p_id persons of
                    Inl e \<Rightarrow> Inl e
                  | Inr i \<Rightarrow>
                      (case get_movies_by_person a i ''cast'' of
                         Inl e \<Rightarrow> Inl e
                       | Inr movies \<Rightarrow>
                           (case fields m_title (take 10 movies) of
                              Inl e \<Rightarrow> Inl e
                            | Inr titles \<Rightarrow>
                                Inr (if titles \<noteq> [] then titles else No_answers))))))"

definition bye_action :: "api \<Rightarrow> string list \<Rightarrow> exn + string list" where
  "bye_action a dummy = Inl KeyboardInterrupt"

subsection \<open>The pattern table and the dispatcher\<close>

type_synonym action = "api \<Rightarrow> string list \<Rightarrow> exn + string list"

definition pa_list :: "(string list \<times> action) list" where
  "pa_list =
     [(py_split ''what movies were made in _'', title_by_year),
      (py_split ''what movies were made between _ and _'', title_by_year_range),
      (py_split ''what movies were made before _'', title_before_year),
      (py_split ''what movies were made after _'', title_after_year),
      (py_split ''who directed %'', director_by_title),
      (py_split ''who was the director of %'', director_by_title),
      (py_split ''what movies were directed by %'', title_by_director),
      (py_split ''who acted in %'', actors_by_title),
      (py_split ''when was % made'', year_by_title),
      (py_split ''in what movies did % appear'', title_by_actor),
      ([''bye''], bye_action)]"

text \<open>
  The loop of \<^verbatim>\<open>search_pa_list\<close> over a table: the first entry whose pattern matches
  decides, an empty answer list becomes \<open>No_answers\<close>, and a table with no matching
  entry gives \<open>I_dont_understand\<close>.
\<close>

fun search_table :: "(string list \<times> action) list \<Rightarrow> api \<Rightarrow> string list \<Rightarrow> exn + string list" where
  "search_table [] a src = Inr I_dont_understand"
| "search_table ((pattern, action) # rest) a src =
     (case match pattern src of
        Some result \<Rightarrow>
          (case action a result of
             Inl e \<Rightarrow> Inl e
           | Inr answers \<Rightarrow> Inr (if answers \<noteq> [] then answers else No_answers))
      | None \<Rightarrow> search_table rest a src)"

definition search_pa_list :: "api \<Rightarrow> string list \<Rightarrow> exn + string list" where
  "search_pa_list a src = search_table pa_list a src"

subsection \<open>The console loop\<close>

text \<open>
  What the loop prints, one constructor per message of \<^verbatim>\<open>query_loop\<close>: the banner,
  the confirmation of a new limit, the two complaints of the limit command, the two
  sentinel messages, the numbered result list, the error line of the outer handler, and
  the farewell. The blank line, the prompt and the spinner are not part of the model.
\<close>

datatype msg =
    Welcome
  | LimitSet int
  | LimitMustBePositive
  | Usage
  | NotUnderstood
  | NoResults
  | Found "string list"
  | ErrorMsg exn
  | SoLong

text \<open>\<^verbatim>\<open>Prompt.ask(...).replace("?", "").lower()\<close> on the line read.\<close>

definition normalise :: "string \<Rightarrow> string" where
  "normalise raw = lower (replace_char CHR ''?'' raw)"

definition query_words :: "string \<Rightarrow> string list" where
  "query_words raw = py_split (normalise raw)"

text \<open>\<^verbatim>\<open>int(query.split()[1])\<close>: \<open>IndexError\<close> when there is no second word.\<close>

definition limit_argument :: "string \<Rightarrow> exn + int" where
  "limit_argument query =
     (case py_split query of
        _ # arg # _ \<Rightarrow> py_int arg
      | _ \<Rightarrow> Inl IndexError)"

definition limit_command :: "int \<Rightarrow> string \<Rightarrow> exn + (int \<times> msg list)" where
  "limit_command result_limit query =
     (case limit_argument query of
        Inr new_limit \<Rightarrow>
          if new_limit > 0 then Inr (new_limit, [LimitSet new_limit])
          else Inr (result_limit, [LimitMustBePositive])
      | Inl e \<Rightarrow>
          if e = ValueError \<or> e = IndexError then Inr (result_limit, [Usage]) else Inl e)"

definition truncate :: "int \<Rightarrow> string list \<Rightarrow> string list" where
  "truncate result_limit answers =
     (if answers \<notin> set [I_dont_understand, No_answers] then slice_to result_limit answers
      else answers)"

definition display :: "string list \<Rightarrow> msg" where
  "display answers =
     (if answers = I_dont_understand then NotUnderstood
      else if answers = No_answers then NoResults
      else Found answers)"

text \<open>
  The body of the \<^verbatim>\<open>try\<close> for one line read: the new limit and the messages
  printed, or the exception that leaves the body.
\<close>

definition process_query :: "api \<Rightarrow> int \<Rightarrow> string \<Rightarrow> exn + (int \<times> msg list)" where
  "process_query a result_limit raw =
     (let query = normalise raw in
      if startswith query ''limit '' then limit_command result_limit query
      else
        (let ws = py_split query in
         if ws = [] then Inr (result_limit, [])
         else
           (case search_pa_list a ws of
              Inl e \<Rightarrow> Inl e
            | Inr answers \<Rightarrow> Inr (result_limit, [display (truncate result_limit answers)]))))"

text \<open>
  The \<^verbatim>\<open>while True\<close> loop over what the prompt gives at each turn: a line, or an
  exception raised while reading (an interrupt); reading past the last line raises
  \<open>EOFError\<close>. One \<open>turn\<close> is the body of the \<^verbatim>\<open>try\<close>: the prompt, then the
  processing of the line read. The result of the loop is the messages printed from the
  first prompt to the farewell, and the turns that were never read.
\<close>

definition turn :: "api \<Rightarrow> int \<Rightarrow> exn + string \<Rightarrow> exn + (int \<times> msg list)" where
  "turn a result_limit inp =
     (case inp of Inl e \<Rightarrow> Inl e | Inr raw \<Rightarrow> process_query a result_limit raw)"

fun loop :: "api \<Rightarrow> int \<Rightarrow> (exn + string) list \<Rightarrow> msg list \<times> (exn + string) list" where
  "loop a result_limit [] = ([SoLong], [])"
| "loop a result_limit (inp # rest) =
     (case turn a result_limit inp of
        Inl e \<Rightarrow>
          if e = KeyboardInterrupt \<or> e = EOFError then ([SoLong], rest)
          else (case loop a result_limit rest of (out, unread) \<Rightarrow> (ErrorMsg e # out, unread))
      | Inr (new_limit, printed) \<Rightarrow>
          (case loop a new_limit rest of (out, unread) \<Rightarrow> (printed @ out, unread)))"

definition query_loop :: "api \<Rightarrow> (exn + string) list \<Rightarrow> msg list \<times> (exn + string) list" where
  "query_loop a inputs = (case loop a 10 inputs of (out, unread) \<Rightarrow> (Welcome # out, unread))"

subsection \<open>The tokenizer as the specification words it\<close>

text \<open>
  The specification's wording of the tokenizer, for comparison with \<open>query_words\<close>:
  the question marks at the end of the line are stripped, the line is lowercased and
  split on white space.
\<close>

definition spec_query_words :: "string \<Rightarrow> string list" where
  "spec_query_words raw =
     py_split (lower (rev (dropWhile (\<lambda>c. c = CHR ''?'') (rev raw))))"

subsection \<open>Notions used to state the properties\<close>



text \<open>The first entry of a table whose pattern matches the query, if there is one.\<close>

definition first_match :: "(string list \<times> action) list \<Rightarrow> string list \<Rightarrow> (string list \<times> action) option" where
  "first_match tbl src = find (\<lambda>(pattern, action). match pattern src \<noteq> None) tbl"

text \<open>What the dispatcher makes of the outcome of the handler it invoked.\<close>

definition answer_of :: "exn + string list \<Rightarrow> exn + string list" where
  "answer_of r =
     (case r of Inl e \<Rightarrow> Inl e | Inr answers \<Rightarrow> Inr (if answers \<noteq> [] then answers else No_answers))"


subsection \<open>Services used in the examples\<close>

text \<open>A service with no key configured: no request is ever sent.\<close>

definition no_key_api :: api where
  "no_key_api =
     \<lparr>TMDB_API_KEY = [],
      get_search_movie = (\<lambda>_. Inl RequestException),
      get_movie = (\<lambda>_. Inl RequestException),
      get_discover_year = (\<lambda>_. Inl RequestException),
      get_discover_range = (\<lambda>_ _. Inl RequestException),
      get_search_person = (\<lambda>_. Inl RequestException),
      get_person_credits = (\<lambda>_ _. Inl RequestException)\<rparr>"

definition titled :: "string \<Rightarrow> movie" where
  "titled t = \<lparr>m_title = Some t, m_id = None, m_release_date = None, m_job = None\<rparr>"

text \<open>
  A service with a key whose discover endpoint answers any year with the given movies.
\<close>

definition year_api :: "movie list \<Rightarrow> api" where
  "year_api ms =
     \<lparr>TMDB_API_KEY = ''k'',
      get_search_movie = (\<lambda>_. Inr []),
      get_movie = (\<lambda>_. Inl RequestException),
      get_discover_year = (\<lambda>_. Inr ms),
      get_discover_range = (\<lambda>_ _. Inr []),
      get_search_person = (\<lambda>_. Inr []),
      get_person_credits = (\<lambda>_ _. Inr [])\<rparr>"

definition numbered_movies :: "nat \<Rightarrow> movie list" where
  "numbered_movies n = map (\<lambda>i. titled (CHR ''m'' # str_nat i)) [1 ..< Suc n]"

text \<open>
  Two small tables: one with deliberately overlapping patterns, the first a prefix of the
  second with a wildcard in place of its tail, and one whose handler finds nothing.
\<close>

definition overlap_table :: "(string list \<times> action) list" where
  "overlap_table =
     [([''who'', ''%''], (\<lambda>a bs. Inr (''general'' # bs))),
      ([''who'', ''directed'', ''%''], (\<lambda>a bs. Inr (''specific'' # bs)))]"

definition empty_answer_table :: "(string list \<times> action) list" where
  "empty_answer_table = [([''ping''], (\<lambda>a bs. Inr []))]"

section \<open>Properties\<close>

subsection \<open>The matcher\<close>

lemma first_some_snoc:
  "\<forall>x \<in> set xs. x = None \<Longrightarrow> first_some (xs @ [Some y]) = Some y"
  by (induction xs) auto




lemma match_tokens_Nil: "match_tokens [] ws = (if ws = [] then Some [] else None)"
  by (cases ws) auto

lemma match_tokens_trailing_multi:
  assumes "ws \<noteq> []"
  shows "match_tokens [MultiWildcard] ws = Some [join_words ws]"
proof -
  let ?f = "\<lambda>k. map_option ((#) (join_words (take k ws))) (match_tokens [] (drop k ws))"
  from assms have n: "[1 ..< Suc (length ws)] = [1 ..< length ws] @ [length ws]"
    by (cases ws) auto
  have none: "\<forall>x \<in> set (map ?f [1 ..< length ws]). x = None"
    by (auto simp: match_tokens_Nil)
  have "first_some (map ?f [1 ..< Suc (length ws)])
          = first_some (map ?f [1 ..< length ws] @ [Some [join_words ws]])"
    unfolding n by (simp add: match_tokens_Nil)
  also have "\<dots> = Some [join_words ws]"
    using none by (rule first_some_snoc)
  finally show ?thesis by simp
qed

lemma match_tokens_literal_prefix:
  "match_tokens (map Literal ls @ ts) (ls @ ws) = match_tokens ts ws"
  by (induction ls) auto

lemma token_of_literal: "w \<noteq> ''_'' \<Longrightarrow> w \<noteq> ''%'' \<Longrightarrow> token_of w = Literal w"
  by (simp add: token_of_def)

lemma map_token_of_literals:
  "\<forall>w \<in> set ls. w \<noteq> ''_'' \<and> w \<noteq> ''%'' \<Longrightarrow> map token_of ls = map Literal ls"
  by (induction ls) (auto simp: token_of_literal)


text \<open>
  Claim C9. A pattern of literal words followed by one multi wildcard matches every input
  that begins with these words and goes on with at least one more token; the wildcard
  captures all the remaining tokens, joined by spaces. The pattern
  \<^verbatim>\<open>who directed %\<close> on \<^verbatim>\<open>who directed the dark knight\<close> gives the single
  binding \<^verbatim>\<open>the dark knight\<close>.
\<close>

theorem match_trailing_multi_wildcard:
  assumes "ws \<noteq> []" and "\<forall>w \<in> set ls. w \<noteq> ''_'' \<and> w \<noteq> ''%''"
  shows "match (ls @ [''%'']) (ls @ ws) = Some [join_words ws]"
proof -
  have "map token_of (ls @ [''%'']) = map Literal ls @ [MultiWildcard]"
    using assms(2) by (simp add: map_token_of_literals token_of_def)
  then have "match (ls @ [''%'']) (ls @ ws)
               = match_tokens (map Literal ls @ [MultiWildcard]) (ls @ ws)"
    by (simp only: match_def)
  also have "\<dots> = match_tokens [MultiWildcard] ws"
    by (rule match_tokens_literal_prefix)
  also have "\<dots> = Some [join_words ws]"
    using assms(1) by (rule match_tokens_trailing_multi)
  finally show ?thesis .
qed

theorem match_trailing_multi_wildcard_witness:
  "match [''who'', ''directed'', ''%''] [''who'', ''directed'', ''the'', ''dark'', ''knight'']
     = Some [''the dark knight'']"
  using match_trailing_multi_wildcard [of "[''the'', ''dark'', ''knight'']" "[''who'', ''directed'']"]
  by simp

subsection \<open>The dispatcher\<close>

lemma first_match_None:
  "first_match tbl src = None \<longleftrightarrow> (\<forall>(p, act) \<in> set tbl. match p src = None)"
  by (auto simp: first_match_def find_None_iff)

lemma search_table_answer:
  "search_table tbl a src =
     (case first_match tbl src of
        None \<Rightarrow> Inr I_dont_understand
      | Some (p, act) \<Rightarrow> answer_of (act a (the (match p src))))"
  by (induction tbl a src rule: search_table.induct)
     (auto simp: first_match_def answer_of_def split: option.splits sum.splits)

lemma first_match_append:
  "\<forall>(q, h) \<in> set pre. match q src = None \<Longrightarrow> match p src = Some bs
   \<Longrightarrow> first_match (pre @ (p, act) # post) src = Some (p, act)"
  by (induction pre) (auto simp: first_match_def)

lemma search_table_nonempty: "search_table tbl a src = Inr r \<Longrightarrow> r \<noteq> []"
  by (induction tbl a src rule: search_table.induct)
     (auto simp: I_dont_understand_def No_answers_def split: option.splits sum.splits if_splits)

lemma sentinels_distinct: "I_dont_understand \<noteq> No_answers"
  by (simp add: I_dont_understand_def No_answers_def)

lemma answer_of_sentinel:
  "answer_of r = Inr I_dont_understand \<Longrightarrow> r = Inr I_dont_understand"
  by (auto simp: answer_of_def I_dont_understand_def No_answers_def split: sum.splits if_splits)

lemma hello_unmatched: "search_pa_list no_key_api [''hello''] = Inr I_dont_understand"
  by code_simp

lemma hello_first_match: "first_match pa_list [''hello''] = None"
  by code_simp

lemma ping_matched: "match [''ping''] [''ping''] = Some []"
  by code_simp

lemma ping_first_match:
  "first_match empty_answer_table [''ping''] = Some ([''ping''], (\<lambda>a bs. Inr []))"
  by (simp add: empty_answer_table_def first_match_def ping_matched)

text \<open>
  Claim C1, as stated, fails: the sentinels travel in the answer list itself, so a handler
  that answers with the one title \<^verbatim>\<open>I don't understand\<close> makes the dispatcher return
  the not-understood sentinel although the first pattern of the table matched.
\<close>

theorem not_understood_counterexample:
  "match (fst (hd pa_list)) [''what'', ''movies'', ''were'', ''made'', ''in'', ''2020'']
     = Some [''2020'']
   \<and> search_pa_list (year_api [titled ''I don't understand''])
         [''what'', ''movies'', ''were'', ''made'', ''in'', ''2020'']
     = Inr I_dont_understand"
  by code_simp

text \<open>
  Claim C1, amended. When no pattern of the table matches the query, \<open>search_pa_list\<close>
  returns the not-understood sentinel. When it returns the not-understood sentinel, either
  no pattern matches, or the handler of the first matching entry itself returned exactly
  that list. When the handler of the first matching entry of a table returns the empty
  list, the dispatcher returns the no-answers sentinel. The two sentinels differ.
\<close>

theorem dispatch_sentinels:
  "((\<forall>(p, act) \<in> set pa_list. match p src = None) \<longrightarrow>
      search_pa_list a src = Inr I_dont_understand)
   \<and> (search_pa_list a src = Inr I_dont_understand \<longrightarrow>
        (\<forall>(p, act) \<in> set pa_list. match p src = None)
        \<or> (\<exists>p act. first_match pa_list src = Some (p, act)
              \<and> act a (the (match p src)) = Inr I_dont_understand))
   \<and> (first_match tbl src = Some (p, act) \<and> act a (the (match p src)) = Inr [] \<longrightarrow>
        search_table tbl a src = Inr No_answers)
   \<and> I_dont_understand \<noteq> No_answers"
proof -
  have a: "(\<forall>(p, act) \<in> set pa_list. match p src = None) \<longrightarrow>
      search_pa_list a src = Inr I_dont_understand"
    by (simp add: search_pa_list_def search_table_answer first_match_None [symmetric])
  have b: "search_pa_list a src = Inr I_dont_understand \<longrightarrow>
        (\<forall>(p, act) \<in> set pa_list. match p src = None)
        \<or> (\<exists>p act. first_match pa_list src = Some (p, act)
              \<and> act a (the (match p src)) = Inr I_dont_understand)"
  proof (cases "first_match pa_list src")
    case None
    then show ?thesis by (simp add: first_match_None)
  next
    case (Some e)
    then show ?thesis
      by (cases e) (auto simp: search_pa_list_def search_table_answer dest: answer_of_sentinel)
  qed
  have c: "first_match tbl src = Some (p, act) \<and> act a (the (match p src)) = Inr [] \<longrightarrow>
        search_table tbl a src = Inr No_answers"
    by (simp add: search_table_answer answer_of_def)
  from a b c sentinels_distinct show ?thesis by blast
qed

theorem dispatch_sentinels_witness:
  "first_match pa_list [''hello''] = None
   \<and> search_pa_list no_key_api [''hello''] = Inr I_dont_understand
   \<and> search_table empty_answer_table no_key_api [''ping''] = Inr No_answers
   \<and> I_dont_understand \<noteq> No_answers"
proof -
  have h: "\<forall>(p, act) \<in> set pa_list. match p [''hello''] = None"
    using hello_first_match by (simp add: first_match_None)
  from dispatch_sentinels [where src = "[''hello'']" and a = no_key_api]
    dispatch_sentinels [where src = "[''ping'']" and a = no_key_api and tbl = empty_answer_table
      and p = "[''ping'']" and act = "\<lambda>a bs. Inr []"]
    h ping_first_match hello_first_match
  show ?thesis by simp
qed

text \<open>
  Claim C2. The dispatcher tries the entries in table order and the first entry whose
  pattern matches decides: when no entry before it matches, the result is what the
  dispatcher makes of that entry's handler on the captured bindings, whatever entries
  follow it in the table, matching or not, raising or not.
\<close>

theorem dispatch_first_match_wins:
  assumes "\<forall>(q, h) \<in> set pre. match q src = None" and "match p src = Some bs"
  shows "search_table (pre @ (p, act) # post) a src = answer_of (act a bs)"
  using first_match_append [OF assms, of act post] assms(2)
  by (simp add: search_table_answer)

theorem dispatch_first_match_wins_witness:
  "match [''who'', ''%''] [''who'', ''directed'', ''inception''] = Some [''directed inception'']
   \<and> match [''who'', ''directed'', ''%''] [''who'', ''directed'', ''inception''] = Some [''inception'']
   \<and> search_table overlap_table no_key_api [''who'', ''directed'', ''inception'']
       = Inr [''general'', ''directed inception'']"
proof -
  have m1: "match [''who'', ''%''] [''who'', ''directed'', ''inception'']
              = Some [''directed inception'']"
    by code_simp
  have m2: "match [''who'', ''directed'', ''%''] [''who'', ''directed'', ''inception'']
              = Some [''inception'']"
    by code_simp
  have pre: "\<forall>(q, h) \<in> set ([] :: (string list \<times> action) list).
               match q [''who'', ''directed'', ''inception''] = None"
    by simp
  from dispatch_first_match_wins [OF pre m1, of "\<lambda>a bs. Inr (''general'' # bs)"
      "[([''who'', ''directed'', ''%''], (\<lambda>a bs. Inr (''specific'' # bs)))]" no_key_api]
  have "search_table overlap_table no_key_api [''who'', ''directed'', ''inception'']
       = Inr [''general'', ''directed inception'']"
    by (simp add: overlap_table_def answer_of_def)
  with m1 m2 show ?thesis by simp
qed

text \<open>
  Claim C10. Whenever \<open>search_pa_list\<close> returns normally, the list it returns is not
  empty: an empty handler result is replaced by the no-answers sentinel, an exhausted
  table gives the not-understood sentinel, and both sentinels are one-element lists.
\<close>

theorem search_pa_list_nonempty:
  "(search_pa_list a src = Inr r \<longrightarrow> r \<noteq> [])
   \<and> (match p src = Some bs \<and> act a bs = Inr [] \<longrightarrow>
        search_table ((p, act) # rest) a src = Inr No_answers)
   \<and> search_table [] a src = Inr I_dont_understand
   \<and> No_answers \<noteq> [] \<and> I_dont_understand \<noteq> []"
  by (auto simp: search_pa_list_def No_answers_def I_dont_understand_def
           dest: search_table_nonempty)

theorem search_pa_list_nonempty_witness:
  "search_pa_list no_key_api [''hello''] = Inr I_dont_understand
   \<and> I_dont_understand \<noteq> []
   \<and> match [''ping''] [''ping''] = Some []
   \<and> search_table empty_answer_table no_key_api [''ping''] = Inr No_answers"
  using search_pa_list_nonempty [of no_key_api "[''hello'']" I_dont_understand]
    search_pa_list_nonempty [of no_key_api "[''ping'']" "[]" "[''ping'']" "[]" "\<lambda>a bs. Inr []" "[]"]
    hello_unmatched ping_matched
  by (simp add: empty_answer_table_def)

subsection \<open>Handlers with no key configured\<close>





















subsection \<open>Truncation of the results\<close>

lemma fields_length: "fields f xs = Inr r \<Longrightarrow> length r = length xs"
  by (induction xs arbitrary: r) (auto split: option.splits sum.splits)

lemma title_by_year_bound: "title_by_year a bs = Inr r \<Longrightarrow> length r \<le> 10"
  by (auto simp: title_by_year_def No_answers_def
           split: list.splits sum.splits if_splits dest!: fields_length)

lemma title_by_year_range_bound: "title_by_year_range a bs = Inr r \<Longrightarrow> length r \<le> 10"
  by (auto simp: title_by_year_range_def No_answers_def
           split: list.splits sum.splits if_splits dest!: fields_length)

lemma title_before_year_bound: "title_before_year a bs = Inr r \<Longrightarrow> length r \<le> 10"
  by (auto simp: title_before_year_def No_answers_def
           split: list.splits sum.splits if_splits dest!: fields_length)

lemma title_after_year_bound: "title_after_year a bs = Inr r \<Longrightarrow> length r \<le> 10"
  by (auto simp: title_after_year_def No_answers_def
           split: list.splits sum.splits if_splits dest!: fields_length)

lemma title_by_director_bound: "title_by_director a bs = Inr r \<Longrightarrow> length r \<le> 10"
  by (auto simp: title_by_director_def No_answers_def
           split: list.splits sum.splits if_splits)

lemma actors_by_title_bound: "actors_by_title a bs = Inr r \<Longrightarrow> length r \<le> 10"
  by (auto simp: actors_by_title_def No_answers_def
           split: list.splits sum.splits if_splits option.splits dest!: fields_length)

lemma title_by_actor_bound: "title_by_actor a bs = Inr r \<Longrightarrow> length r \<le> 10"
  by (auto simp: title_by_actor_def No_answers_def
           split: list.splits sum.splits if_splits dest!: fields_length)

lemma process_query_dispatch:
  "\<not> startswith (normalise raw) ''limit '' \<Longrightarrow> query_words raw \<noteq> [] \<Longrightarrow>
   process_query a l raw =
     (case search_pa_list a (query_words raw) of
        Inl e \<Rightarrow> Inl e
      | Inr answers \<Rightarrow> Inr (l, [display (truncate l answers)]))"
  by (simp add: process_query_def query_words_def Let_def)

text \<open>
  Claim C4, as stated, fails: \<open>title_by_year\<close> keeps the first ten movies of the
  response only. Of eleven movies, each with a title, it returns ten titles.
\<close>

theorem handler_truncates_counterexample:
  "fields m_title (numbered_movies 11)
     = Inr [''m1'', ''m2'', ''m3'', ''m4'', ''m5'', ''m6'', ''m7'', ''m8'', ''m9'', ''m10'', ''m11'']
   \<and> title_by_year (year_api (numbered_movies 11)) [''2020'']
     = Inr [''m1'', ''m2'', ''m3'', ''m4'', ''m5'', ''m6'', ''m7'', ''m8'', ''m9'', ''m10'']"
  by code_simp

text \<open>
  Claim C4, amended. The handlers truncate: \<open>title_by_year\<close> returns the titles of the
  first ten movies of a non-empty response, and each of the seven handlers that list
  movie titles or cast names returns at most ten answers. After dispatch the console loop
  slices a result that is not a sentinel to the limit, which for a limit that is not
  negative is the first \<open>result_limit\<close> items.
\<close>

theorem truncation_places:
  "(search_movies_by_year a year = Inr movies \<and> movies \<noteq> [] \<longrightarrow>
      title_by_year a (year # bs) = fields m_title (take 10 movies))
   \<and> (h \<in> set [title_by_year, title_by_year_range, title_before_year, title_after_year,
                 title_by_director, actors_by_title, title_by_actor]
        \<and> h a bs = Inr r \<longrightarrow> length r \<le> 10)
   \<and> (\<not> startswith (normalise raw) ''limit '' \<and> query_words raw \<noteq> []
        \<and> search_pa_list a (query_words raw) = Inr answers \<longrightarrow>
        process_query a result_limit raw =
          Inr (result_limit,
               [display (if answers = I_dont_understand \<or> answers = No_answers then answers
                         else slice_to result_limit answers)]))
   \<and> (0 \<le> result_limit \<longrightarrow> slice_to result_limit answers = take (nat result_limit) answers)"
proof -
  have a: "search_movies_by_year a year = Inr movies \<and> movies \<noteq> [] \<longrightarrow>
      title_by_year a (year # bs) = fields m_title (take 10 movies)"
    by (simp add: title_by_year_def)
  have b: "h \<in> set [title_by_year, title_by_year_range, title_before_year, title_after_year,
                 title_by_director, actors_by_title, title_by_actor]
        \<and> h a bs = Inr r \<longrightarrow> length r \<le> 10"
    using title_by_year_bound title_by_year_range_bound title_before_year_bound
      title_after_year_bound title_by_director_bound actors_by_title_bound title_by_actor_bound
    by auto
  have c: "\<not> startswith (normalise raw) ''limit '' \<and> query_words raw \<noteq> []
        \<and> search_pa_list a (query_words raw) = Inr answers \<longrightarrow>
        process_query a result_limit raw =
          Inr (result_limit,
               [display (if answers = I_dont_understand \<or> answers = No_answers then answers
                         else slice_to result_limit answers)])"
    by (auto simp: process_query_dispatch truncate_def)
  have d: "0 \<le> result_limit \<longrightarrow> slice_to result_limit answers = take (nat result_limit) answers"
    by (simp add: slice_to_def)
  from a b c d show ?thesis by blast
qed

lemma eight_movies:
  "search_pa_list (year_api (numbered_movies 8)) (query_words ''what movies were made in 2020'')
     = Inr [''m1'', ''m2'', ''m3'', ''m4'', ''m5'', ''m6'', ''m7'', ''m8'']"
  by code_simp

lemma eight_movies_query:
  "\<not> startswith (normalise ''what movies were made in 2020'') ''limit ''"
  "query_words ''what movies were made in 2020'' \<noteq> []"
  by code_simp+

lemma twelve_movies_found:
  "search_movies_by_year (year_api (numbered_movies 12)) ''2020'' = Inr (numbered_movies 12)"
  by (simp add: search_movies_by_year_def year_api_def guarded_def)

lemma twelve_movies_titles:
  "numbered_movies 12 \<noteq> []"
  "fields m_title (take 10 (numbered_movies 12))
     = Inr [''m1'', ''m2'', ''m3'', ''m4'', ''m5'', ''m6'', ''m7'', ''m8'', ''m9'', ''m10'']"
  by code_simp+

theorem truncation_places_witness:
  "search_movies_by_year (year_api (numbered_movies 12)) ''2020'' = Inr (numbered_movies 12)
   \<and> title_by_year (year_api (numbered_movies 12)) [''2020'']
       = Inr [''m1'', ''m2'', ''m3'', ''m4'', ''m5'', ''m6'', ''m7'', ''m8'', ''m9'', ''m10'']
   \<and> process_query (year_api (numbered_movies 8)) 5 ''what movies were made in 2020''
       = Inr (5, [Found [''m1'', ''m2'', ''m3'', ''m4'', ''m5'']])"
proof -
  have s: "[''m1'', ''m2'', ''m3'', ''m4'', ''m5'', ''m6'', ''m7'', ''m8''] \<noteq> I_dont_understand"
    "[''m1'', ''m2'', ''m3'', ''m4'', ''m5'', ''m6'', ''m7'', ''m8''] \<noteq> No_answers"
    by (simp_all add: I_dont_understand_def No_answers_def)
  have d: "display [''m1'', ''m2'', ''m3'', ''m4'', ''m5''] = Found [''m1'', ''m2'', ''m3'', ''m4'', ''m5'']"
    by (simp add: display_def I_dont_understand_def No_answers_def)
  from truncation_places [where a = "year_api (numbered_movies 12)" and year = "''2020''"
      and movies = "numbered_movies 12" and bs = "[]"]
    twelve_movies_found twelve_movies_titles
  have t: "title_by_year (year_api (numbered_movies 12)) [''2020'']
       = Inr [''m1'', ''m2'', ''m3'', ''m4'', ''m5'', ''m6'', ''m7'', ''m8'', ''m9'', ''m10'']"
    by simp
  from truncation_places [where a = "year_api (numbered_movies 8)"
      and raw = "''what movies were made in 2020''" and result_limit = 5
      and answers = "[''m1'', ''m2'', ''m3'', ''m4'', ''m5'', ''m6'', ''m7'', ''m8'']"]
    eight_movies eight_movies_query s d
  have p: "process_query (year_api (numbered_movies 8)) 5 ''what movies were made in 2020''
       = Inr (5, [Found [''m1'', ''m2'', ''m3'', ''m4'', ''m5'']])"
    by (simp add: slice_to_def)
  from twelve_movies_found t p show ?thesis by simp
qed

subsection \<open>The limit command\<close>











subsection \<open>The tokenizer\<close>

lemma trailing_split:
  "xs = rev (dropWhile P (rev xs)) @ rev (takeWhile P (rev xs))"
  by (simp only: rev_append [symmetric] takeWhile_dropWhile_id rev_rev_ident)

lemma filter_drop_suffix:
  "\<forall>z \<in> set zs. P z \<Longrightarrow> filter (\<lambda>c. \<not> P c) (ys @ zs) = filter (\<lambda>c. \<not> P c) ys"
  by (simp add: filter_empty_conv)

lemma filter_trailing:
  "filter (\<lambda>c. \<not> P c) xs = filter (\<lambda>c. \<not> P c) (rev (dropWhile P (rev xs)))"
proof -
  have "\<forall>z \<in> set (rev (takeWhile P (rev xs))). P z"
    by (auto dest: set_takeWhileD)
  from filter_drop_suffix [OF this, of "rev (dropWhile P (rev xs))"]
  show ?thesis by (simp only: trailing_split [symmetric])
qed

lemma replace_only_trailing:
  assumes "CHR ''?'' \<notin> set (rev (dropWhile (\<lambda>c. c = CHR ''?'') (rev raw)))"
  shows "replace_char CHR ''?'' raw = rev (dropWhile (\<lambda>c. c = CHR ''?'') (rev raw))"
proof -
  let ?x = "rev (dropWhile (\<lambda>c. c = CHR ''?'') (rev raw))"
  have "replace_char CHR ''?'' raw = filter (\<lambda>c. \<not> c = CHR ''?'') ?x"
    unfolding replace_char_def by (rule filter_trailing [of "\<lambda>c. c = CHR ''?''" raw])
  also have "\<dots> = ?x"
    using assms by (intro filter_True) auto
  finally show ?thesis .
qed

text \<open>
  Claim C6, as stated, fails: the loop removes every question mark of the line, not only
  those at its end. On \<^verbatim>\<open>who? directed inception\<close> the dispatcher receives the
  token \<^verbatim>\<open>who\<close>, where stripping at the end of the line would leave
  \<^verbatim>\<open>who?\<close>.
\<close>

theorem tokenizer_counterexample:
  "query_words ''who? directed inception'' = [''who'', ''directed'', ''inception'']
   \<and> spec_query_words ''who? directed inception'' = [''who?'', ''directed'', ''inception'']"
  by code_simp

text \<open>
  Claim C6, amended. For every line that is dispatched (it is not a limit command and has
  at least one word), the tokens handed to \<open>search_pa_list\<close> are the line with every
  question mark removed, lowercased and split on white space. They agree with the
  reading of the specification, which strips at the end of the line, whenever the line
  has no question mark before its trailing ones. The line
  \<^verbatim>\<open>who directed inception?\<close> gives the tokens who, directed, inception.
\<close>

theorem tokens_dispatched:
  "(\<not> startswith (normalise raw) ''limit '' \<and> query_words raw \<noteq> [] \<longrightarrow>
      process_query a l raw =
        (case search_pa_list a (py_split (lower (filter (\<lambda>c. c \<noteq> CHR ''?'') raw))) of
           Inl e \<Rightarrow> Inl e
         | Inr answers \<Rightarrow> Inr (l, [display (truncate l answers)])))
   \<and> (CHR ''?'' \<notin> set (rev (dropWhile (\<lambda>c. c = CHR ''?'') (rev raw))) \<longrightarrow>
        query_words raw = spec_query_words raw)
   \<and> query_words ''who directed inception?'' = [''who'', ''directed'', ''inception'']"
proof -
  have a: "\<not> startswith (normalise raw) ''limit '' \<and> query_words raw \<noteq> [] \<longrightarrow>
      process_query a l raw =
        (case search_pa_list a (py_split (lower (filter (\<lambda>c. c \<noteq> CHR ''?'') raw))) of
           Inl e \<Rightarrow> Inl e
         | Inr answers \<Rightarrow> Inr (l, [display (truncate l answers)]))"
  proof (intro impI, elim conjE)
    assume h: "\<not> startswith (normalise raw) ''limit ''" "query_words raw \<noteq> []"
    have "query_words raw = py_split (lower (filter (\<lambda>c. c \<noteq> CHR ''?'') raw))"
      by (simp add: query_words_def normalise_def replace_char_def)
    with process_query_dispatch [OF h, of a l]
    show "process_query a l raw =
        (case search_pa_list a (py_split (lower (filter (\<lambda>c. c \<noteq> CHR ''?'') raw))) of
           Inl e \<Rightarrow> Inl e
         | Inr answers \<Rightarrow> Inr (l, [display (truncate l answers)]))"
      by simp
  qed
  have b: "CHR ''?'' \<notin> set (rev (dropWhile (\<lambda>c. c = CHR ''?'') (rev raw))) \<longrightarrow>
        query_words raw = spec_query_words raw"
    by (simp add: query_words_def spec_query_words_def normalise_def replace_only_trailing)
  have c: "query_words ''who directed inception?'' = [''who'', ''directed'', ''inception'']"
    by code_simp
  from a b c show ?thesis by blast
qed

lemma inception_line:
  "\<not> startswith (normalise ''Who directed Inception?'') ''limit ''"
  "query_words ''Who directed Inception?'' = [''who'', ''directed'', ''inception'']"
  "CHR ''?'' \<notin> set (rev (dropWhile (\<lambda>c. c = CHR ''?'') (rev ''Who directed Inception?'')))"
  "search_pa_list no_key_api [''who'', ''directed'', ''inception''] = Inr No_answers"
  by code_simp+

theorem tokens_dispatched_witness:
  "query_words ''Who directed Inception?'' = [''who'', ''directed'', ''inception'']
   \<and> spec_query_words ''Who directed Inception?'' = [''who'', ''directed'', ''inception'']
   \<and> process_query no_key_api 10 ''Who directed Inception?'' = Inr (10, [NoResults])"
proof -
  have ne: "query_words ''Who directed Inception?'' \<noteq> []"
    by (simp add: inception_line(2))
  have q: "py_split (lower (filter (\<lambda>c. c \<noteq> CHR ''?'') ''Who directed Inception?''))
             = [''who'', ''directed'', ''inception'']"
    using inception_line(2) by (simp add: query_words_def normalise_def replace_char_def)
  have d: "display (truncate 10 No_answers) = NoResults"
    by (simp add: display_def truncate_def No_answers_def I_dont_understand_def)
  from tokens_dispatched [where raw = "''Who directed Inception?''" and a = no_key_api and l = 10]
    inception_line ne q d
  show ?thesis by simp
qed

subsection \<open>The console loop\<close>











end
